theory Spec2Isabelle
  imports Complex_Main "HOL-Library.Word"
begin

section \<open>Data model of \<^verbatim>\<open>detector/views.py\<close>\<close>

text \<open>
  The two view handlers \<^verbatim>\<open>detection\<close> and \<^verbatim>\<open>segmentation\<close> glue library calls together
  (Django storage, PIL, DETR, Mask R-CNN, NumPy, OpenCV).  The statements written in the
  views themselves (the guards, the loops, the NumPy expression of line 82, the file
  names) are embedded as HOL functions.  What a library computes (decoding, the networks,
  the random generator) is a field of the record \<open>libs\<close> below and stays arbitrary in
  every general theorem; OpenCV's drawing calls are recorded, not rasterised.
\<close>

type_synonym u8 = "8 word"

text \<open>A pixel is the three \<^verbatim>\<open>uint8\<close> channels of one array cell, in array order.\<close>

type_synonym pixel = "u8 \<times> u8 \<times> u8"

text \<open>An \<open>H \<times> W \<times> 3\<close> array of \<^verbatim>\<open>uint8\<close>: a list of rows.\<close>

type_synonym ndarray = "pixel list list"

subsection \<open>Numeric conversions\<close>

text \<open>
  Conversion of a float to an integer type rounds towards zero, in Python's \<^verbatim>\<open>int(x)\<close>
  (line 43) and in NumPy's cast on assignment into a \<^verbatim>\<open>uint8\<close> array (line 82).
\<close>

definition trunc_towards_zero :: "real \<Rightarrow> int" where
  "trunc_towards_zero x = (if 0 \<le> x then \<lfloor>x\<rfloor> else \<lceil>x\<rceil>)"

definition astype_uint8 :: "real \<Rightarrow> u8" where
  "astype_uint8 x = word_of_int (trunc_towards_zero x)"

text \<open>
  One channel of line 82, \<^verbatim>\<open>image_cv[sel] * 0.5 + color * 0.5\<close>, stored back into the
  \<^verbatim>\<open>uint8\<close> array.  Both products and their sum are multiples of one half below 256, which
  \<^verbatim>\<open>float64\<close> represents exactly, so the arithmetic is that of the reals.
\<close>

definition blend_channel :: "u8 \<Rightarrow> u8 \<Rightarrow> u8" where
  "blend_channel v c = astype_uint8 (real (unat v) * 0.5 + real (unat c) * 0.5)"

definition blend_pixel :: "pixel \<Rightarrow> pixel \<Rightarrow> pixel" where
  "blend_pixel p color =
     (case p of (p0, p1, p2) \<Rightarrow> case color of (c0, c1, c2) \<Rightarrow>
        (blend_channel p0 c0, blend_channel p1 c1, blend_channel p2 c2))"

subsection \<open>Requests, files and responses\<close>

text \<open>
  Exceptions that leave a handler.  \<open>KeyError\<close> and \<open>IndexError\<close> are raised by the
  indexing expressions of the views (lines 26, 44, 80, 82); \<open>External n\<close> is an exception
  of class \<open>n\<close> raised inside a library call.  The views contain no \<^verbatim>\<open>try\<close>.
\<close>

datatype exn = KeyError | IndexError | External string

record uploaded_file =
  name :: string
  content :: "u8 list"

record request =
  http_method :: string
  FILES :: "string \<rightharpoonup> uploaded_file"

text \<open>
  What OpenCV has been asked to paint on an array.  The rasteriser is OpenCV's; an array
  that was drawn on is kept as its pixels before drawing and the calls made on it, in
  order.
\<close>

datatype draw_op =
    Rectangle "int \<times> int" "int \<times> int" "nat \<times> nat \<times> nat" nat
  | PutText string "int \<times> int" nat real "nat \<times> nat \<times> nat" nat

record canvas =
  pixels :: ndarray
  overlay :: "draw_op list"

text \<open>
  A file of \<^verbatim>\<open>MEDIA_ROOT\<close>, by its name relative to that directory: an upload as stored
  by \<^verbatim>\<open>fs.save\<close>, or the array handed to \<^verbatim>\<open>cv2.imwrite\<close> (the encoder is not modelled).
\<close>

datatype media_file = Upload "u8 list" | Picture canvas

type_synonym directory = "string \<rightharpoonup> media_file"

text \<open>
  The state a handler can change: the media directory, and the number of forward passes
  of a network started so far.
\<close>

record world =
  media_root :: directory
  inferences :: nat

datatype response = Render string "(string \<times> string) list"

subsection \<open>Model outputs\<close>

type_synonym box = "real \<times> real \<times> real \<times> real"

text \<open>One candidate of the detector's raw output: a query's best class, its score, its box.\<close>

record detection =
  score :: real
  label :: int
  box :: box

text \<open>
  The dictionaries the views iterate over with \<^verbatim>\<open>zip\<close>: \<^verbatim>\<open>results\<close> of line 38 with the keys
  \<^verbatim>\<open>scores\<close>, \<^verbatim>\<open>labels\<close>, \<^verbatim>\<open>boxes\<close>, and \<^verbatim>\<open>predictions\<close> of line 74, which has \<^verbatim>\<open>masks\<close>
  as well (one \<open>1 \<times> H \<times> W\<close> tensor of floats per instance).
\<close>

record results =
  scores :: "real list"
  labels :: "int list"
  boxes :: "box list"

record predictions = results +
  masks :: "real list list list list"

subsection \<open>Library calls\<close>

text \<open>
  The library functions the views call, as parameters:
  \<^item> \<open>fs_save dir n bytes\<close>: \<^verbatim>\<open>FileSystemStorage.save\<close>, giving the name the file was stored
    under and the directory afterwards;
  \<^item> \<open>image_open dir n\<close>: \<^verbatim>\<open>Image.open(path).convert("RGB")\<close> and \<^verbatim>\<open>np.array\<close>;
  \<^item> \<open>detr image\<close>: \<^verbatim>\<open>detr_processor\<close> followed by \<^verbatim>\<open>detr_model\<close> (lines 34 to 36);
  \<^item> \<open>scale_box (h, w) b\<close>: the rescaling of a box to the target size;
  \<^item> \<open>id2label\<close>: \<^verbatim>\<open>detr_model.config.id2label\<close>;
  \<^item> \<open>format_2f\<close>: the format \<^verbatim>\<open>:.2f\<close> of line 45;
  \<^item> \<open>maskrcnn image\<close>: lines 72 to 74;
  \<^item> \<open>mul_255_byte\<close>: \<^verbatim>\<open>.mul(255).byte()\<close> on one \<^verbatim>\<open>float32\<close> element of a mask;
  \<^item> \<open>randint k\<close>: the \<open>k\<close>-th colour \<^verbatim>\<open>np.random.randint(0, 255, (3,), dtype=np.uint8)\<close>
    returns during the request;
  \<^item> \<open>has_writer n\<close>: whether OpenCV has an encoder for the extension of the file name
    \<open>n\<close>; \<^verbatim>\<open>cv2.imwrite\<close> raises \<^verbatim>\<open>cv2.error\<close> when it has none.
\<close>

record libs =
  fs_save :: "directory \<Rightarrow> string \<Rightarrow> u8 list \<Rightarrow> string \<times> directory"
  image_open :: "directory \<Rightarrow> string \<Rightarrow> exn + ndarray"
  detr :: "ndarray \<Rightarrow> exn + detection list"
  scale_box :: "nat \<times> nat \<Rightarrow> box \<Rightarrow> box"
  id2label :: "int \<rightharpoonup> string"
  format_2f :: "real \<Rightarrow> string"
  maskrcnn :: "ndarray \<Rightarrow> exn + predictions"
  mul_255_byte :: "real \<Rightarrow> u8"
  randint :: "nat \<Rightarrow> pixel"
  has_writer :: "string \<Rightarrow> bool"

text \<open>\<^verbatim>\<open>cv2.cvtColor(image_np, cv2.COLOR_RGB2BGR)\<close>: a new array with the channels reversed.\<close>

definition cvtColor_RGB2BGR :: "ndarray \<Rightarrow> ndarray" where
  "cvtColor_RGB2BGR image_np = map (map (\<lambda>(r, g, b). (b, g, r))) image_np"

text \<open>\<^verbatim>\<open>image.size[::-1]\<close>: height and width of the decoded image.\<close>

definition size_reversed :: "ndarray \<Rightarrow> nat \<times> nat" where
  "size_reversed image_rgb =
     (length image_rgb, (case image_rgb of [] \<Rightarrow> 0 | row # _ \<Rightarrow> length row))"

section \<open>The segmentation view, lines 76 to 82\<close>

text \<open>
  NumPy accepts the boolean index \<^verbatim>\<open>mask > 128\<close> on \<^verbatim>\<open>image_cv\<close> only when its shape is
  that of the first two axes of the array, and raises \<^verbatim>\<open>IndexError\<close> otherwise.  On lists
  of rows: as many rows, and each row as long.
\<close>

definition boolean_index_fits :: "u8 list list \<Rightarrow> ndarray \<Rightarrow> bool" where
  "boolean_index_fits mask_b image_cv = list_all2 (\<lambda>mrow row. length mrow = length row) mask_b image_cv"

text \<open>
  Line 82, \<^verbatim>\<open>image_cv[mask > 128] = image_cv[mask > 128] * 0.5 + color * 0.5\<close>.  The
  comparison is that of \<^verbatim>\<open>uint8\<close>, unsigned.
\<close>

definition masked_assign :: "ndarray \<Rightarrow> u8 list list \<Rightarrow> pixel \<Rightarrow> exn + ndarray" where
  "masked_assign image_cv mask_b color =
     (if boolean_index_fits mask_b image_cv
      then Inr (map2 (\<lambda>row mrow. map2 (\<lambda>p v. if 128 < v then blend_pixel p color else p) row mrow)
                  image_cv mask_b)
      else Inl IndexError)"

text \<open>
  The loop of lines 78 to 82 over \<^verbatim>\<open>zip(masks, scores, labels)\<close>.  \<open>k\<close> counts the colours
  drawn so far.  \<^verbatim>\<open>mask[0]\<close> raises \<^verbatim>\<open>IndexError\<close> on a tensor with no channel.
\<close>

fun draw_masks ::
  "libs \<Rightarrow> ndarray \<Rightarrow> nat \<Rightarrow> (real list list list \<times> real \<times> int) list \<Rightarrow> exn + ndarray \<times> nat"
where
  "draw_masks L image_cv k [] = Inr (image_cv, k)"
| "draw_masks L image_cv k ((mask_t, s, l) # rest) =
     (if 0.5 < s then
        (case mask_t of
           [] \<Rightarrow> Inl IndexError
         | mask0 # _ \<Rightarrow>
             (case masked_assign image_cv (map (map (mul_255_byte L)) mask0) (randint L k) of
                Inl e \<Rightarrow> Inl e
              | Inr image_cv' \<Rightarrow> draw_masks L image_cv' (Suc k) rest))
      else draw_masks L image_cv k rest)"

definition segmentation_annotate :: "libs \<Rightarrow> ndarray \<Rightarrow> predictions \<Rightarrow> exn + ndarray" where
  "segmentation_annotate L image_np prediction =
     (case draw_masks L (cvtColor_RGB2BGR image_np) 0
             (zip (masks prediction) (zip (scores prediction) (labels prediction))) of
        Inl e \<Rightarrow> Inl e
      | Inr (image_cv, _) \<Rightarrow> Inr image_cv)"

text \<open>
  The specification's reading of the same loop, for comparison with \<open>draw_masks\<close>: every
  instance of the list it is given is blended, in order, with the next colour.
\<close>

fun blend_every ::
  "libs \<Rightarrow> ndarray \<Rightarrow> nat \<Rightarrow> (real list list list \<times> real \<times> int) list \<Rightarrow> exn + ndarray \<times> nat"
where
  "blend_every L image_cv k [] = Inr (image_cv, k)"
| "blend_every L image_cv k ((mask_t, s, l) # rest) =
     (case mask_t of
        [] \<Rightarrow> Inl IndexError
      | mask0 # _ \<Rightarrow>
          (case masked_assign image_cv (map (map (mul_255_byte L)) mask0) (randint L k) of
             Inl e \<Rightarrow> Inl e
           | Inr image_cv' \<Rightarrow> blend_every L image_cv' (Suc k) rest))"

section \<open>The detection view, lines 33 to 48\<close>

text \<open>
  Modelled from the spec: \<^verbatim>\<open>post_process_object_detection\<close> of line 38 is a function of the
  \<^verbatim>\<open>transformers\<close> library, and its code is not among the sources.  The specification
  says of it: ``Post-processes raw model output into a set of Detection records, scaled
  back to the original image's pixel size, keeping only detections with score \<open>\<ge>\<close> 0.9'',
  0.9 being the \<^verbatim>\<open>threshold\<close> the view passes.  The rescaling itself is the parameter \<open>scale\<close>.
\<close>

definition post_process_object_detection ::
  "(nat \<times> nat \<Rightarrow> box \<Rightarrow> box) \<Rightarrow> detection list \<Rightarrow> nat \<times> nat \<Rightarrow> real \<Rightarrow> results"
where
  "post_process_object_detection scale outputs target_sizes threshold =
     (let kept = filter (\<lambda>d. threshold \<le> score d) outputs
      in \<lparr>scores = map score kept,
          labels = map label kept,
          boxes = map (\<lambda>d. scale target_sizes (box d)) kept\<rparr>)"

text \<open>
  The arrays of one request live in a store, addressed by position: \<^verbatim>\<open>cv2.rectangle\<close> and
  \<^verbatim>\<open>cv2.putText\<close> change the array they are given in place, while \<^verbatim>\<open>np.array\<close> and
  \<^verbatim>\<open>cv2.cvtColor\<close> return a new one.
\<close>

type_synonym heap = "canvas list"

definition alloc :: "heap \<Rightarrow> canvas \<Rightarrow> nat \<times> heap" where
  "alloc h c = (length h, h @ [c])"

definition cv2_rectangle ::
  "heap \<Rightarrow> nat \<Rightarrow> int \<times> int \<Rightarrow> int \<times> int \<Rightarrow> nat \<times> nat \<times> nat \<Rightarrow> nat \<Rightarrow> heap"
where
  "cv2_rectangle h img pt1 pt2 color thickness =
     h[img := (h ! img)\<lparr>overlay := overlay (h ! img) @ [Rectangle pt1 pt2 color thickness]\<rparr>]"

definition cv2_putText ::
  "heap \<Rightarrow> nat \<Rightarrow> string \<Rightarrow> int \<times> int \<Rightarrow> nat \<Rightarrow> real \<Rightarrow> nat \<times> nat \<times> nat \<Rightarrow> nat \<Rightarrow> heap"
where
  "cv2_putText h img txt org fontFace fontScale color thickness =
     h[img := (h ! img)\<lparr>overlay := overlay (h ! img)
                                       @ [PutText txt org fontFace fontScale color thickness]\<rparr>]"

definition FONT_HERSHEY_SIMPLEX :: nat where
  "FONT_HERSHEY_SIMPLEX = 0"

text \<open>Line 43, \<^verbatim>\<open>[int(i) for i in box.tolist()]\<close>.\<close>

definition int_box :: "box \<Rightarrow> int \<times> int \<times> int \<times> int" where
  "int_box b =
     (case b of (x0, x1, x2, x3) \<Rightarrow>
        (trunc_towards_zero x0, trunc_towards_zero x1, trunc_towards_zero x2, trunc_towards_zero x3))"

text \<open>
  The loop of lines 42 to 48 over \<^verbatim>\<open>zip(scores, labels, boxes)\<close>, drawing on the array at
  address \<open>image_cv\<close>.  \<^verbatim>\<open>id2label[...]\<close> raises \<^verbatim>\<open>KeyError\<close> on a label it does not hold.
\<close>

fun draw_boxes :: "libs \<Rightarrow> nat \<Rightarrow> heap \<Rightarrow> (real \<times> int \<times> box) list \<Rightarrow> exn + heap" where
  "draw_boxes L image_cv h [] = Inr h"
| "draw_boxes L image_cv h ((s, l, b) # rest) =
     (case int_box b of (b0, b1, b2, b3) \<Rightarrow>
        (case id2label L l of
           None \<Rightarrow> Inl KeyError
         | Some label_str \<Rightarrow>
             (let score_str = format_2f L s;
                  h1 = cv2_rectangle h image_cv (b0, b1) (b2, b3) (0, 255, 0) 2;
                  h2 = cv2_putText h1 image_cv (label_str @ '' '' @ score_str) (b0, b1 - 10)
                         FONT_HERSHEY_SIMPLEX 0.5 (0, 255, 0) 2
              in draw_boxes L image_cv h2 rest)))"

text \<open>
  Lines 33 and 37 to 48 on a decoded image and the detector's raw output.  The result is
  the store and the addresses of \<^verbatim>\<open>image_np\<close> and \<^verbatim>\<open>image_cv\<close>.
\<close>

definition detection_annotate ::
  "libs \<Rightarrow> ndarray \<Rightarrow> detection list \<Rightarrow> exn + heap \<times> nat \<times> nat"
where
  "detection_annotate L image_rgb outputs =
     (case alloc [] \<lparr>pixels = image_rgb, overlay = []\<rparr> of (image_np, h1) \<Rightarrow>
        (let target_sizes = size_reversed image_rgb;
             rs = post_process_object_detection (scale_box L) outputs target_sizes 0.9
         in case alloc h1 \<lparr>pixels = cvtColor_RGB2BGR (pixels (h1 ! image_np)), overlay = []\<rparr> of
              (image_cv, h2) \<Rightarrow>
                (case draw_boxes L image_cv h2 (zip (scores rs) (zip (labels rs) (boxes rs))) of
                   Inl e \<Rightarrow> Inl e
                 | Inr h3 \<Rightarrow> Inr (h3, image_np, image_cv))))"

text \<open>The rectangles among the calls made on an array, by their corner coordinates.\<close>

fun rectangles :: "draw_op list \<Rightarrow> (int \<times> int \<times> int \<times> int) list" where
  "rectangles [] = []"
| "rectangles (Rectangle (x0, y0) (x1, y1) color thickness # ops) = (x0, y0, x1, y1) # rectangles ops"
| "rectangles (PutText txt org fontFace fontScale color thickness # ops) = rectangles ops"

section \<open>The view handlers\<close>

text \<open>
  The guard of lines 25 and 63, \<^verbatim>\<open>request.method == 'POST' and request.FILES.get('image')\<close>.
  An uploaded file is true when its name is not empty (Django's \<^verbatim>\<open>File.__bool__\<close>).
\<close>

definition posted_image :: "request \<Rightarrow> bool" where
  "posted_image request =
     (http_method request = ''POST''
      \<and> (case FILES request ''image'' of None \<Rightarrow> False | Some image_file \<Rightarrow> name image_file \<noteq> []))"

text \<open>
  \<^verbatim>\<open>detection\<close>, lines 24 to 60.  A path \<^verbatim>\<open>os.path.join(settings.MEDIA_ROOT, n)\<close> is the
  name \<open>n\<close> in the media directory.  An exception leaves the handler with the changes
  made before it.  \<^verbatim>\<open>cv2.imwrite\<close> (lines 53 and 87) writes the array under the name it
  is given when OpenCV has an encoder for the extension, and raises otherwise.
\<close>

definition detection :: "libs \<Rightarrow> request \<Rightarrow> world \<Rightarrow> (exn + response) \<times> world" where
  "detection L request w =
     (if posted_image request then
        (case FILES request ''image'' of
           None \<Rightarrow> (Inl KeyError, w)
         | Some image_file \<Rightarrow>
             (case fs_save L (media_root w) (name image_file) (content image_file) of
                (filename, saved) \<Rightarrow>
                  (let w1 = w\<lparr>media_root := saved\<rparr> in
                   case image_open L saved filename of
                     Inl e \<Rightarrow> (Inl e, w1)
                   | Inr image_rgb \<Rightarrow>
                       (let w2 = w1\<lparr>inferences := Suc (inferences w1)\<rparr> in
                        case detr L image_rgb of
                          Inl e \<Rightarrow> (Inl e, w2)
                        | Inr outputs \<Rightarrow>
                            (case detection_annotate L image_rgb outputs of
                               Inl e \<Rightarrow> (Inl e, w2)
                             | Inr (h, image_np, image_cv) \<Rightarrow>
                                 (let processed_filename = ''processed_'' @ filename in
                                  if has_writer L processed_filename then
                                    (let w3 = w2\<lparr>media_root :=
                                                (media_root w2)(processed_filename \<mapsto>
                                                   Picture (h ! image_cv))\<rparr>
                                     in (Inr (Render ''detection_result.html''
                                                [(''original'', filename),
                                                 (''processed'', processed_filename)]),
                                         w3))
                                  else (Inl (External ''cv2.error''), w2)))))))
      else (Inr (Render ''detection.html'' []), w))"

text \<open>\<^verbatim>\<open>segmentation\<close>, lines 62 to 94.\<close>

definition segmentation :: "libs \<Rightarrow> request \<Rightarrow> world \<Rightarrow> (exn + response) \<times> world" where
  "segmentation L request w =
     (if posted_image request then
        (case FILES request ''image'' of
           None \<Rightarrow> (Inl KeyError, w)
         | Some image_file \<Rightarrow>
             (case fs_save L (media_root w) (name image_file) (content image_file) of
                (filename, saved) \<Rightarrow>
                  (let w1 = w\<lparr>media_root := saved\<rparr> in
                   case image_open L saved filename of
                     Inl e \<Rightarrow> (Inl e, w1)
                   | Inr image_np \<Rightarrow>
                       (let w2 = w1\<lparr>inferences := Suc (inferences w1)\<rparr> in
                        case maskrcnn L image_np of
                          Inl e \<Rightarrow> (Inl e, w2)
                        | Inr prediction \<Rightarrow>
                            (case segmentation_annotate L image_np prediction of
                               Inl e \<Rightarrow> (Inl e, w2)
                             | Inr image_cv \<Rightarrow>
                                 (let processed_filename = ''processed_'' @ filename in
                                  if has_writer L processed_filename then
                                    (let w3 = w2\<lparr>media_root :=
                                                (media_root w2)(processed_filename \<mapsto>
                                                   Picture \<lparr>pixels = image_cv, overlay = []\<rparr>)\<rparr>
                                     in (Inr (Render ''segmentation_result.html''
                                                [(''original'', filename),
                                                 (''processed'', processed_filename)]),
                                         w3))
                                  else (Inl (External ''cv2.error''), w2)))))))
      else (Inr (Render ''segmentation.html'' []), w))"

section \<open>Stub libraries for concrete runs\<close>

text \<open>
  Synthetic stand-ins for the libraries, with fixed scores, on which the handlers can be
  evaluated.  The storage stores an upload under its own name when that name is free and
  under an alternative name otherwise, which is what Django's \<^verbatim>\<open>FileSystemStorage\<close> does
  by default; the decoder rejects an empty file and otherwise yields one row with a grey
  pixel per byte.
\<close>

definition stub_alternative_name :: "string \<Rightarrow> string" where
  "stub_alternative_name n =
     takeWhile (\<lambda>c. c \<noteq> CHR ''.'') n @ ''_x7Gq2Lm'' @ dropWhile (\<lambda>c. c \<noteq> CHR ''.'') n"

definition stub_save :: "directory \<Rightarrow> string \<Rightarrow> u8 list \<Rightarrow> string \<times> directory" where
  "stub_save dir n bytes =
     (let stored = (if dir n = None then n else stub_alternative_name n)
      in (stored, dir(stored \<mapsto> Upload bytes)))"

definition stub_open :: "directory \<Rightarrow> string \<Rightarrow> exn + ndarray" where
  "stub_open dir n =
     (case dir n of
        None \<Rightarrow> Inl (External ''FileNotFoundError'')
      | Some (Picture c) \<Rightarrow> Inl (External ''UnidentifiedImageError'')
      | Some (Upload bytes) \<Rightarrow>
          (if bytes = [] then Inl (External ''UnidentifiedImageError'')
           else Inr [map (\<lambda>b. (b, b, b)) bytes]))"

definition cat :: detection where
  "cat = \<lparr>score = 0.95, label = 17, box = (10, 10, 50, 50)\<rparr>"

definition faint :: detection where
  "faint = \<lparr>score = 0.3, label = 1, box = (0, 0, 20, 20)\<rparr>"

definition stub_predictions :: "ndarray \<Rightarrow> predictions" where
  "stub_predictions image_np =
     \<lparr>scores = [0.8], labels = [17], boxes = [(0, 0, 1, 1)],
      masks = [[map (map (\<lambda>p. 1)) image_np]]\<rparr>"

definition colours :: "nat \<Rightarrow> pixel" where
  "colours k = (if k = 0 then (200, 200, 200) else (0, 0, 0))"

definition stub_libs :: libs where
  "stub_libs =
     \<lparr>fs_save = stub_save,
      image_open = stub_open,
      detr = (\<lambda>image_rgb. Inr [cat, faint]),
      scale_box = (\<lambda>target_sizes b. b),
      id2label = [17 \<mapsto> ''cat'', 1 \<mapsto> ''person''],
      format_2f = (\<lambda>s. if s = 0.95 then ''0.95'' else ''0.30''),
      maskrcnn = (\<lambda>image_np. Inr (stub_predictions image_np)),
      mul_255_byte = (\<lambda>x. word_of_int \<lfloor>x * 255\<rfloor>),
      randint = colours,
      has_writer = (\<lambda>n. dropWhile (\<lambda>c. c \<noteq> CHR ''.'') n = ''.jpg'')\<rparr>"

definition cat_upload :: "u8 list \<Rightarrow> request" where
  "cat_upload bytes =
     \<lparr>http_method = ''POST'', FILES = [''image'' \<mapsto> \<lparr>name = ''cat.jpg'', content = bytes\<rparr>]\<rparr>"

definition bare_upload :: request where
  "bare_upload =
     \<lparr>http_method = ''POST'', FILES = [''image'' \<mapsto> \<lparr>name = ''cat'', content = [1]\<rparr>]\<rparr>"

definition get_form :: request where
  "get_form = \<lparr>http_method = ''GET'', FILES = Map.empty\<rparr>"

definition empty_world :: world where
  "empty_world = \<lparr>media_root = Map.empty, inferences = 0\<rparr>"

text \<open>
  A segmenter whose output tensors do not fit together: two masks for one score, the
  first mask three pixels wide whatever the image.
\<close>

definition misshapen :: predictions where
  "misshapen =
     \<lparr>scores = [0.3], labels = [17], boxes = [],
      masks = [[[[1, 1, 1]]], [[[1]]]]\<rparr>"

section \<open>Properties\<close>

subsection \<open>The blend of one channel\<close>

lemma half_sum_floor:
  "\<lfloor>real a * 0.5 + real b * 0.5\<rfloor> = int ((a + b) div 2)"
proof -
  have "real a * 0.5 + real b * 0.5 = real (a + b) / real 2" by simp
  then show ?thesis by (simp only: floor_divide_of_nat_eq)
qed

lemma trunc_half_sum:
  "trunc_towards_zero (real a * 0.5 + real b * 0.5) = int ((a + b) div 2)"
proof -
  have "(0::real) \<le> real a * 0.5 + real b * 0.5" by simp
  then show ?thesis
    unfolding trunc_towards_zero_def using half_sum_floor [of a b] by simp
qed

lemma blend_channel_unat:
  "unat (blend_channel v c) = (unat v + unat c) div 2"
proof -
  have a: "unat v < 256" using unsigned_less [of v] by simp
  have b: "unat c < 256" using unsigned_less [of c] by simp
  have "blend_channel v c = word_of_int (int ((unat v + unat c) div 2))"
    by (simp only: blend_channel_def astype_uint8_def trunc_half_sum)
  moreover have "(unat v + unat c) div 2 < 256" using a b by linarith
  ultimately show ?thesis by (simp add: unat_of_nat)
qed

lemma blend_channel_eq: "blend_channel v c = of_nat ((unat v + unat c) div 2)"
  by (simp flip: blend_channel_unat)

lemma blend_channel_floor:
  "int (unat (blend_channel v c)) = \<lfloor>real (unat v) * 0.5 + real (unat c) * 0.5\<rfloor>"
  by (simp only: blend_channel_unat half_sum_floor)

lemma blend_channel_trunc:
  "trunc_towards_zero (real (unat v) * 0.5 + real (unat c) * 0.5) = int (unat (blend_channel v c))"
  by (simp only: blend_channel_unat trunc_half_sum)

lemma half_sum_bound_nat:
  "a \<le> 255 \<Longrightarrow> b \<le> 255 \<Longrightarrow>
     0 \<le> real a * 0.5 + real b * 0.5 \<and> real a * 0.5 + real b * 0.5 \<le> 255"
  by simp

lemma half_sum_bound:
  "0 \<le> real (unat (v::u8)) * 0.5 + real (unat (c::u8)) * 0.5
   \<and> real (unat v) * 0.5 + real (unat c) * 0.5 \<le> 255"
proof (rule half_sum_bound_nat)
  show "unat v \<le> 255" using unsigned_less [of v, where ?'a = nat] by simp
  show "unat c \<le> 255" using unsigned_less [of c, where ?'a = nat] by simp
qed

subsection \<open>The masked assignment and the loop over instances\<close>

lemma boolean_index_fits_lengths:
  assumes "boolean_index_fits mask_b image_cv"
  shows "length mask_b = length image_cv"
    and "i < length image_cv \<Longrightarrow> length (mask_b ! i) = length (image_cv ! i)"
  using assms unfolding boolean_index_fits_def
  by (auto simp: list_all2_conv_all_nth)

lemma masked_assign_Inr:
  "masked_assign image_cv mask_b color = Inr image_cv' \<longleftrightarrow>
     boolean_index_fits mask_b image_cv \<and>
     image_cv' = map2 (\<lambda>row mrow. map2 (\<lambda>p v. if 128 < v then blend_pixel p color else p) row mrow)
                   image_cv mask_b"
  unfolding masked_assign_def by auto

lemma masked_assign_shape:
  assumes "masked_assign image_cv mask_b color = Inr image_cv'"
  shows "length image_cv' = length image_cv"
    and "i < length image_cv \<Longrightarrow> length (image_cv' ! i) = length (image_cv ! i)"
  using assms boolean_index_fits_lengths [of mask_b image_cv]
  by (auto simp: masked_assign_Inr)

lemma masked_assign_nth:
  assumes "masked_assign image_cv mask_b color = Inr image_cv'"
    and "i < length image_cv" and "j < length (image_cv ! i)"
  shows "image_cv' ! i ! j =
           (if 128 < mask_b ! i ! j then blend_pixel (image_cv ! i ! j) color else image_cv ! i ! j)"
  using assms boolean_index_fits_lengths [of mask_b image_cv]
  by (auto simp: masked_assign_Inr)

text \<open>
  Claim C10.  At a pixel whose mask byte is above 128, each channel that line 82 stores
  is the floor, which here is also the truncation towards zero, of
  \<open>0.5 \<cdot> previous + 0.5 \<cdot> colour\<close>, that is the integer mean rounded down.  The
  number being cast lies between 0 and 255, so the stored \<^verbatim>\<open>uint8\<close> is its truncation
  itself and never a value that wrapped around.
\<close>

theorem masked_pixel_channel_floor_no_overflow:
  assumes "masked_assign image_cv mask_b color = Inr image_cv'"
    and "i < length image_cv" and "j < length (image_cv ! i)"
    and "128 < mask_b ! i ! j"
    and "image_cv ! i ! j = (p0, p1, p2)" and "color = (c0, c1, c2)"
  shows "(case image_cv' ! i ! j of (q0, q1, q2) \<Rightarrow>
           int (unat q0) = \<lfloor>real (unat p0) * 0.5 + real (unat c0) * 0.5\<rfloor>
           \<and> int (unat q1) = \<lfloor>real (unat p1) * 0.5 + real (unat c1) * 0.5\<rfloor>
           \<and> int (unat q2) = \<lfloor>real (unat p2) * 0.5 + real (unat c2) * 0.5\<rfloor>
           \<and> int (unat q0) = trunc_towards_zero (real (unat p0) * 0.5 + real (unat c0) * 0.5)
           \<and> int (unat q1) = trunc_towards_zero (real (unat p1) * 0.5 + real (unat c1) * 0.5)
           \<and> int (unat q2) = trunc_towards_zero (real (unat p2) * 0.5 + real (unat c2) * 0.5)
           \<and> unat q0 = (unat p0 + unat c0) div 2
           \<and> unat q1 = (unat p1 + unat c1) div 2
           \<and> unat q2 = (unat p2 + unat c2) div 2)
         \<and> 0 \<le> real (unat p0) * 0.5 + real (unat c0) * 0.5
         \<and> real (unat p0) * 0.5 + real (unat c0) * 0.5 \<le> 255
         \<and> 0 \<le> real (unat p1) * 0.5 + real (unat c1) * 0.5
         \<and> real (unat p1) * 0.5 + real (unat c1) * 0.5 \<le> 255
         \<and> 0 \<le> real (unat p2) * 0.5 + real (unat c2) * 0.5
         \<and> real (unat p2) * 0.5 + real (unat c2) * 0.5 \<le> 255"
proof -
  have px: "image_cv' ! i ! j = (blend_channel p0 c0, blend_channel p1 c1, blend_channel p2 c2)"
    using masked_assign_nth [OF assms(1,2,3)] assms(4,5,6) by (simp add: blend_pixel_def)
  have chans: "(case image_cv' ! i ! j of (q0, q1, q2) \<Rightarrow>
           int (unat q0) = \<lfloor>real (unat p0) * 0.5 + real (unat c0) * 0.5\<rfloor>
           \<and> int (unat q1) = \<lfloor>real (unat p1) * 0.5 + real (unat c1) * 0.5\<rfloor>
           \<and> int (unat q2) = \<lfloor>real (unat p2) * 0.5 + real (unat c2) * 0.5\<rfloor>
           \<and> int (unat q0) = trunc_towards_zero (real (unat p0) * 0.5 + real (unat c0) * 0.5)
           \<and> int (unat q1) = trunc_towards_zero (real (unat p1) * 0.5 + real (unat c1) * 0.5)
           \<and> int (unat q2) = trunc_towards_zero (real (unat p2) * 0.5 + real (unat c2) * 0.5)
           \<and> unat q0 = (unat p0 + unat c0) div 2
           \<and> unat q1 = (unat p1 + unat c1) div 2
           \<and> unat q2 = (unat p2 + unat c2) div 2)"
    unfolding px prod.case
    using blend_channel_floor [of p0 c0] blend_channel_floor [of p1 c1] blend_channel_floor [of p2 c2]
      blend_channel_trunc [of p0 c0] blend_channel_trunc [of p1 c1] blend_channel_trunc [of p2 c2]
      blend_channel_unat [of p0 c0] blend_channel_unat [of p1 c1] blend_channel_unat [of p2 c2]
    by presburger
  from chans half_sum_bound [of p0 c0] half_sum_bound [of p1 c1] half_sum_bound [of p2 c2]
  show ?thesis by blast
qed

lemma draw_masks_filter:
  "draw_masks L image_cv k insts = blend_every L image_cv k (filter (\<lambda>(m, s, l). 0.5 < s) insts)"
  by (induction insts arbitrary: image_cv k) (auto split: list.splits sum.splits)

lemma draw_masks_append:
  "draw_masks L image_cv k (xs @ ys) =
     (case draw_masks L image_cv k xs of
        Inl e \<Rightarrow> Inl e
      | Inr (image_cv', k') \<Rightarrow> draw_masks L image_cv' k' ys)"
  by (induction xs arbitrary: image_cv k) (auto split: list.splits sum.splits)

lemma draw_masks_none_kept:
  "\<forall>x \<in> set insts. \<not> 0.5 < fst (snd x) \<Longrightarrow> draw_masks L image_cv k insts = Inr (image_cv, k)"
  by (induction insts arbitrary: image_cv k) auto

subsection \<open>The loop over detections\<close>

lemma cv2_rectangle_frame:
  "length (cv2_rectangle h a p q c t) = length h"
  "b \<noteq> a \<Longrightarrow> cv2_rectangle h a p q c t ! b = h ! b"
  "a < length h \<Longrightarrow> pixels (cv2_rectangle h a p q c t ! a) = pixels (h ! a)"
  "a < length h \<Longrightarrow> overlay (cv2_rectangle h a p q c t ! a) = overlay (h ! a) @ [Rectangle p q c t]"
  by (simp_all add: cv2_rectangle_def)

lemma cv2_putText_frame:
  "length (cv2_putText h a s p f sc c t) = length h"
  "b \<noteq> a \<Longrightarrow> cv2_putText h a s p f sc c t ! b = h ! b"
  "a < length h \<Longrightarrow> pixels (cv2_putText h a s p f sc c t ! a) = pixels (h ! a)"
  "a < length h \<Longrightarrow> overlay (cv2_putText h a s p f sc c t ! a) = overlay (h ! a) @ [PutText s p f sc c t]"
  by (simp_all add: cv2_putText_def)

lemma rectangles_append: "rectangles (xs @ ys) = rectangles xs @ rectangles ys"
  by (induction xs rule: rectangles.induct) simp_all

lemma draw_boxes_frame:
  "draw_boxes L a h xs = Inr h' \<Longrightarrow>
     length h' = length h \<and> (\<forall>b. b \<noteq> a \<longrightarrow> h' ! b = h ! b)"
proof (induction xs arbitrary: h)
  case Nil
  then show ?case by simp
next
  case (Cons x xs)
  obtain s l b where x: "x = (s, l, b)" by (cases x)
  obtain b0 b1 b2 b3 where ib: "int_box b = (b0, b1, b2, b3)" by (cases "int_box b")
  from Cons.prems x ib obtain label_str where
    lab: "id2label L l = Some label_str" and
    rest: "draw_boxes L a
             (cv2_putText (cv2_rectangle h a (b0, b1) (b2, b3) (0, 255, 0) 2) a
                (label_str @ '' '' @ format_2f L s) (b0, b1 - 10) FONT_HERSHEY_SIMPLEX 0.5 (0, 255, 0) 2)
             xs = Inr h'"
    by (auto split: option.splits simp: Let_def)
  from Cons.IH [OF rest] show ?case
    by (simp add: cv2_rectangle_frame cv2_putText_frame)
qed

lemma draw_boxes_canvas:
  "draw_boxes L a h xs = Inr h' \<Longrightarrow> a < length h \<Longrightarrow>
     pixels (h' ! a) = pixels (h ! a) \<and>
     rectangles (overlay (h' ! a)) = rectangles (overlay (h ! a)) @ map (\<lambda>(s, l, b). int_box b) xs"
proof (induction xs arbitrary: h)
  case Nil
  then show ?case by simp
next
  case (Cons x xs)
  obtain s l b where x: "x = (s, l, b)" by (cases x)
  obtain b0 b1 b2 b3 where ib: "int_box b = (b0, b1, b2, b3)" by (cases "int_box b")
  define h2 where "h2 label_str = cv2_putText (cv2_rectangle h a (b0, b1) (b2, b3) (0, 255, 0) 2) a
                (label_str @ '' '' @ format_2f L s) (b0, b1 - 10) FONT_HERSHEY_SIMPLEX 0.5 (0, 255, 0) 2"
    for label_str
  from Cons.prems(1) x ib obtain label_str where
    lab: "id2label L l = Some label_str" and
    rest: "draw_boxes L a (h2 label_str) xs = Inr h'"
    by (auto split: option.splits simp: Let_def h2_def)
  have len: "a < length (h2 label_str)"
    using Cons.prems(2) by (simp add: h2_def cv2_rectangle_frame cv2_putText_frame)
  have px: "pixels (h2 label_str ! a) = pixels (h ! a)"
    using Cons.prems(2) by (simp add: h2_def cv2_rectangle_frame cv2_putText_frame)
  have ov: "rectangles (overlay (h2 label_str ! a)) = rectangles (overlay (h ! a)) @ [(b0, b1, b2, b3)]"
    using Cons.prems(2)
    by (simp add: h2_def cv2_rectangle_frame cv2_putText_frame rectangles_append)
  from Cons.IH [OF rest len] px ov show ?case
    by (simp add: x ib)
qed

lemma zip_results:
  "zip (map f xs) (zip (map g xs) (map k xs)) = map (\<lambda>x. (f x, g x, k x)) xs"
  by (induction xs) simp_all

lemma detection_annotate_Inr:
  assumes "detection_annotate L image_rgb outputs = Inr (h, image_np, image_cv)"
  shows "image_np = 0" and "image_cv = 1"
    and "draw_boxes L 1
           [\<lparr>pixels = image_rgb, overlay = []\<rparr>, \<lparr>pixels = cvtColor_RGB2BGR image_rgb, overlay = []\<rparr>]
           (map (\<lambda>d. (score d, label d, scale_box L (size_reversed image_rgb) (box d)))
              (filter (\<lambda>d. 0.9 \<le> score d) outputs)) = Inr h"
  using assms
  by (auto simp: detection_annotate_def alloc_def post_process_object_detection_def
      Let_def zip_results split: sum.splits)

subsection \<open>The two pipelines\<close>

text \<open>
  Claim C2.  The loop of the segmentation view gives the same result as blending, in
  order, every instance of the model's output whose score is strictly greater than 0.5
  and no other: an instance with a score of 0.5 or less changes neither the image nor
  the colours drawn, and an instance with a score above 0.5 is never skipped.
\<close>

theorem masks_blended_iff_score_above_half:
  "draw_masks L image_cv k insts
     = blend_every L image_cv k (filter (\<lambda>(m, s, l). 0.5 < s) insts)
   \<and> segmentation_annotate L image_np prediction
     = (case blend_every L (cvtColor_RGB2BGR image_np) 0
               (filter (\<lambda>(m, s, l). 0.5 < s)
                  (zip (masks prediction) (zip (scores prediction) (labels prediction)))) of
          Inl e \<Rightarrow> Inl e
        | Inr (image_cv', k') \<Rightarrow> Inr image_cv')"
  by (simp only: segmentation_annotate_def draw_masks_filter)

text \<open>
  Claim C1.  When the detection pipeline returns, the rectangles that were drawn on the
  output array are, in order and one for one, the boxes (rescaled, truncated to
  integers) of the detections of the model's output whose score is at least 0.9; no
  rectangle is drawn for a detection with a score below 0.9.  The score filter is that of
  \<open>post_process_object_detection\<close>; the loop of the view draws every result it is given.
\<close>

theorem detection_draws_boxes_of_kept_scores:
  assumes "detection_annotate L image_rgb outputs = Inr (h, image_np, image_cv)"
  shows "rectangles (overlay (h ! image_cv))
           = map (\<lambda>d. int_box (scale_box L (size_reversed image_rgb) (box d)))
               (filter (\<lambda>d. 0.9 \<le> score d) outputs)"
proof -
  note run = detection_annotate_Inr [OF assms]
  have "rectangles (overlay (h ! 1))
          = rectangles [] @ map (\<lambda>(s, l, b). int_box b)
              (map (\<lambda>d. (score d, label d, scale_box L (size_reversed image_rgb) (box d)))
                 (filter (\<lambda>d. 0.9 \<le> score d) outputs))"
    using draw_boxes_canvas [OF run(3)] by simp
  then show ?thesis by (simp add: run(2) comp_def)
qed

text \<open>
  Claim C8.  After the detection pipeline has returned, the decoded array \<^verbatim>\<open>image_np\<close>
  holds the decoded pixels and no drawing call was made on it: rectangles and labels went
  to \<^verbatim>\<open>image_cv\<close>, a different array of the store.
\<close>

theorem detection_leaves_decoded_array:
  assumes "detection_annotate L image_rgb outputs = Inr (h, image_np, image_cv)"
  shows "h ! image_np = \<lparr>pixels = image_rgb, overlay = []\<rparr>
         \<and> image_cv \<noteq> image_np
         \<and> pixels (h ! image_cv) = cvtColor_RGB2BGR image_rgb
         \<and> length h = 2"
proof -
  note run = detection_annotate_Inr [OF assms]
  from draw_boxes_frame [OF run(3)] draw_boxes_canvas [OF run(3)]
  show ?thesis by (simp add: run(1,2))
qed

lemma draw_boxes_Nil_results:
  "\<forall>d \<in> set outputs. score d < 0.9 \<Longrightarrow> filter (\<lambda>d. 0.9 \<le> score d) outputs = []"
  by (induction outputs) auto

text \<open>
  Claim C3.  If every detection of the model's output scores below 0.9, the detection
  pipeline's output array is the decoded image with its channels reversed (RGB to BGR),
  with no drawing call on it; if no instance scores above 0.5, the segmentation
  pipeline's output array is the decoded image with its channels reversed.
\<close>

theorem unchanged_without_qualifying_results:
  "((\<forall>d \<in> set outputs. score d < 0.9) \<longrightarrow>
      detection_annotate L image_rgb outputs
        = Inr ([\<lparr>pixels = image_rgb, overlay = []\<rparr>,
                \<lparr>pixels = cvtColor_RGB2BGR image_rgb, overlay = []\<rparr>], 0, 1))
   \<and> ((\<forall>s \<in> set (scores prediction). s \<le> 0.5) \<longrightarrow>
      segmentation_annotate L image_rgb prediction = Inr (cvtColor_RGB2BGR image_rgb))"
proof (intro conjI impI)
  assume "\<forall>d \<in> set outputs. score d < 0.9"
  then have "filter (\<lambda>d. 0.9 \<le> score d) outputs = []" by (rule draw_boxes_Nil_results)
  then show "detection_annotate L image_rgb outputs
        = Inr ([\<lparr>pixels = image_rgb, overlay = []\<rparr>,
                \<lparr>pixels = cvtColor_RGB2BGR image_rgb, overlay = []\<rparr>], 0, 1)"
    by (simp add: detection_annotate_def alloc_def post_process_object_detection_def Let_def)
next
  assume low: "\<forall>s \<in> set (scores prediction). s \<le> 0.5"
  have "\<forall>x \<in> set (zip (masks prediction) (zip (scores prediction) (labels prediction))).
          \<not> 0.5 < fst (snd x)"
  proof
    fix x assume x: "x \<in> set (zip (masks prediction) (zip (scores prediction) (labels prediction)))"
    obtain m s l where "x = (m, s, l)" by (cases x) auto
    with x have "(s, l) \<in> set (zip (scores prediction) (labels prediction))"
      by (auto dest: set_zip_rightD)
    then have "s \<in> set (scores prediction)" by (rule set_zip_leftD)
    then have "fst (snd x) \<in> set (scores prediction)" using \<open>x = (m, s, l)\<close> by simp
    with low show "\<not> 0.5 < fst (snd x)" by fastforce
  qed
  then show "segmentation_annotate L image_rgb prediction = Inr (cvtColor_RGB2BGR image_rgb)"
    by (simp add: segmentation_annotate_def draw_masks_none_kept)
qed

text \<open>
  Claim C4.  For an instance with a score above 0.5 whose mask has the shape of the image,
  the loop continues with an array in which each pixel whose mask byte (the mask value
  after \<^verbatim>\<open>.mul(255).byte()\<close>) is strictly greater than 128 is the 50/50 blend of its previous
  value with the instance's random colour, and each pixel whose mask byte is 128 or less
  is unchanged.
\<close>

theorem kept_instance_blends_where_mask_above_128:
  assumes "0.5 < s"
    and "masked_assign image_cv (map (map (mul_255_byte L)) mask0) (randint L k) = Inr image_cv'"
    and "i < length image_cv" and "j < length (image_cv ! i)"
  shows "draw_masks L image_cv k ((mask0 # channels, s, l) # rest) = draw_masks L image_cv' (Suc k) rest
         \<and> image_cv' ! i ! j =
             (if 128 < mul_255_byte L (mask0 ! i ! j)
              then blend_pixel (image_cv ! i ! j) (randint L k)
              else image_cv ! i ! j)"
proof -
  from assms(2) have fits: "boolean_index_fits (map (map (mul_255_byte L)) mask0) image_cv"
    by (simp add: masked_assign_Inr)
  from boolean_index_fits_lengths [OF fits] assms(3,4)
  have "i < length mask0" and "j < length (mask0 ! i)" by auto
  then have "map (map (mul_255_byte L)) mask0 ! i ! j = mul_255_byte L (mask0 ! i ! j)" by simp
  with masked_assign_nth [OF assms(2,3,4)] assms(1,2) show ?thesis by simp
qed

subsection \<open>The handlers\<close>

lemma posted_image_iff:
  "posted_image request \<Longrightarrow> http_method request = ''POST'' \<and> FILES request ''image'' \<noteq> None"
  by (auto simp: posted_image_def split: option.splits)

text \<open>
  Claim C9.  For a request that is not a POST carrying a file under \<^verbatim>\<open>image\<close>, both
  handlers return their form page and leave the world as it was: no file is written and
  no network is run.  Hence a handler changes the media directory only on a POST with a
  file under \<^verbatim>\<open>image\<close>.
\<close>

theorem no_upload_no_effect:
  "(\<not> (http_method request = ''POST'' \<and> FILES request ''image'' \<noteq> None) \<longrightarrow>
      detection L request w = (Inr (Render ''detection.html'' []), w)
      \<and> segmentation L request w = (Inr (Render ''segmentation.html'' []), w))
   \<and> (media_root (snd (detection L request w)) \<noteq> media_root w
       \<or> media_root (snd (segmentation L request w)) \<noteq> media_root w \<longrightarrow>
      http_method request = ''POST'' \<and> FILES request ''image'' \<noteq> None)"
proof -
  have form: "detection L request w = (Inr (Render ''detection.html'' []), w)
      \<and> segmentation L request w = (Inr (Render ''segmentation.html'' []), w)"
    if "\<not> (http_method request = ''POST'' \<and> FILES request ''image'' \<noteq> None)"
  proof -
    from that have "\<not> posted_image request" using posted_image_iff by blast
    then show ?thesis by (simp add: detection_def segmentation_def)
  qed
  then show ?thesis by fastforce
qed

lemma detection_posted:
  assumes "posted_image request" and "FILES request ''image'' = Some image_file"
    and "fs_save L (media_root w) (name image_file) (content image_file) = (filename, saved)"
  shows "detection L request w =
     (case image_open L saved filename of
        Inl e \<Rightarrow> (Inl e, w\<lparr>media_root := saved\<rparr>)
      | Inr image_rgb \<Rightarrow>
         (case detr L image_rgb of
            Inl e \<Rightarrow> (Inl e, w\<lparr>media_root := saved, inferences := Suc (inferences w)\<rparr>)
          | Inr outputs \<Rightarrow>
             (case detection_annotate L image_rgb outputs of
                Inl e \<Rightarrow> (Inl e, w\<lparr>media_root := saved, inferences := Suc (inferences w)\<rparr>)
              | Inr (h, image_np, image_cv) \<Rightarrow>
                  (if has_writer L (''processed_'' @ filename) then
                     (Inr (Render ''detection_result.html''
                            [(''original'', filename), (''processed'', ''processed_'' @ filename)]),
                      w\<lparr>media_root := saved(''processed_'' @ filename \<mapsto> Picture (h ! image_cv)),
                        inferences := Suc (inferences w)\<rparr>)
                   else (Inl (External ''cv2.error''),
                         w\<lparr>media_root := saved, inferences := Suc (inferences w)\<rparr>)))))"
  using assms by (simp add: detection_def Let_def split: sum.splits prod.splits)

lemma segmentation_posted:
  assumes "posted_image request" and "FILES request ''image'' = Some image_file"
    and "fs_save L (media_root w) (name image_file) (content image_file) = (filename, saved)"
  shows "segmentation L request w =
     (case image_open L saved filename of
        Inl e \<Rightarrow> (Inl e, w\<lparr>media_root := saved\<rparr>)
      | Inr image_np \<Rightarrow>
         (case maskrcnn L image_np of
            Inl e \<Rightarrow> (Inl e, w\<lparr>media_root := saved, inferences := Suc (inferences w)\<rparr>)
          | Inr prediction \<Rightarrow>
             (case segmentation_annotate L image_np prediction of
                Inl e \<Rightarrow> (Inl e, w\<lparr>media_root := saved, inferences := Suc (inferences w)\<rparr>)
              | Inr image_cv \<Rightarrow>
                  (if has_writer L (''processed_'' @ filename) then
                     (Inr (Render ''segmentation_result.html''
                            [(''original'', filename), (''processed'', ''processed_'' @ filename)]),
                      w\<lparr>media_root := saved(''processed_'' @ filename \<mapsto>
                                          Picture \<lparr>pixels = image_cv, overlay = []\<rparr>),
                        inferences := Suc (inferences w)\<rparr>)
                   else (Inl (External ''cv2.error''),
                         w\<lparr>media_root := saved, inferences := Suc (inferences w)\<rparr>)))))"
  using assms by (simp add: segmentation_def Let_def split: sum.splits prod.splits)


text \<open>
  Claim C7, as amended.  When decoding raises, both handlers end with that exception,
  with no network run and nothing written but the upload.  When the network raises, or
  the drawing loop raises (\<^verbatim>\<open>KeyError\<close> for a label missing from \<^verbatim>\<open>id2label\<close>,
  \<^verbatim>\<open>IndexError\<close> for a kept instance whose mask does not fit the image), the handler
  ends with that exception after exactly one forward pass, again with nothing written
  but the upload: no retry, no annotated image.
\<close>

theorem failures_leave_handler_unretried:
  assumes "posted_image request" and "FILES request ''image'' = Some image_file"
    and "fs_save L (media_root w) (name image_file) (content image_file) = (filename, saved)"
  shows "(image_open L saved filename = Inl e \<longrightarrow>
            detection L request w = (Inl e, w\<lparr>media_root := saved\<rparr>)
            \<and> segmentation L request w = (Inl e, w\<lparr>media_root := saved\<rparr>))
       \<and> (image_open L saved filename = Inr image_np \<and> detr L image_np = Inl e \<longrightarrow>
            detection L request w
              = (Inl e, w\<lparr>media_root := saved, inferences := Suc (inferences w)\<rparr>))
       \<and> (image_open L saved filename = Inr image_np \<and> maskrcnn L image_np = Inl e \<longrightarrow>
            segmentation L request w
              = (Inl e, w\<lparr>media_root := saved, inferences := Suc (inferences w)\<rparr>))
       \<and> (image_open L saved filename = Inr image_np \<and> detr L image_np = Inr outputs
            \<and> detection_annotate L image_np outputs = Inl e \<longrightarrow>
            detection L request w
              = (Inl e, w\<lparr>media_root := saved, inferences := Suc (inferences w)\<rparr>))
       \<and> (image_open L saved filename = Inr image_np \<and> maskrcnn L image_np = Inr prediction
            \<and> segmentation_annotate L image_np prediction = Inl e \<longrightarrow>
            segmentation L request w
              = (Inl e, w\<lparr>media_root := saved, inferences := Suc (inferences w)\<rparr>))"
  by (simp add: detection_posted [OF assms] segmentation_posted [OF assms])

subsection \<open>Overlapping masks\<close>

lemma masked_assign_keeps_fit:
  assumes "masked_assign image_cv mask_b color = Inr image_cv'"
    and "boolean_index_fits m image_cv"
  shows "boolean_index_fits m image_cv'"
  using assms(2) masked_assign_shape [OF assms(1)]
  unfolding boolean_index_fits_def by (auto simp: list_all2_conv_all_nth)

text \<open>
  Claim C5, as amended.  The loop handles the instances in the order of the model's
  output: running it on \<open>xs @ ys\<close> is running it on \<open>xs\<close> and then on \<open>ys\<close> from the array
  and colour count reached.  Where the masks of two kept instances are both on, the
  pixel ends as the 50/50 blend of the later colour with the value the earlier instance
  left there, which is itself the blend of the input pixel with the earlier colour.
\<close>

theorem later_instance_blended_over_earlier:
  assumes "0.5 < s1" and "0.5 < s2"
    and "boolean_index_fits (map (map (mul_255_byte L)) m1) image_cv"
    and "boolean_index_fits (map (map (mul_255_byte L)) m2) image_cv"
    and "i < length image_cv" and "j < length (image_cv ! i)"
  shows "draw_masks L image_cv k (xs @ ys) =
           (case draw_masks L image_cv k xs of
              Inl e \<Rightarrow> Inl e
            | Inr (image_cv', k') \<Rightarrow> draw_masks L image_cv' k' ys)
       \<and> (\<exists>image2.
            draw_masks L image_cv k [(m1 # r1, s1, l1), (m2 # r2, s2, l2)] = Inr (image2, Suc (Suc k))
            \<and> image2 ! i ! j =
                (let p = image_cv ! i ! j;
                     p1 = (if 128 < mul_255_byte L (m1 ! i ! j) then blend_pixel p (randint L k) else p)
                 in if 128 < mul_255_byte L (m2 ! i ! j)
                    then blend_pixel p1 (randint L (Suc k)) else p1))"
proof
  show "draw_masks L image_cv k (xs @ ys) =
           (case draw_masks L image_cv k xs of
              Inl e \<Rightarrow> Inl e
            | Inr (image_cv', k') \<Rightarrow> draw_masks L image_cv' k' ys)"
    by (rule draw_masks_append)
next
  let ?b1 = "map (map (mul_255_byte L)) m1" and ?b2 = "map (map (mul_255_byte L)) m2"
  obtain image1 where a1: "masked_assign image_cv ?b1 (randint L k) = Inr image1"
    using assms(3) by (simp add: masked_assign_def)
  have fit2: "boolean_index_fits ?b2 image1"
    using masked_assign_keeps_fit [OF a1 assms(4)] .
  obtain image2 where a2: "masked_assign image1 ?b2 (randint L (Suc k)) = Inr image2"
    using fit2 by (simp add: masked_assign_def)
  have i1: "i < length image1" and j1: "j < length (image1 ! i)"
    using masked_assign_shape [OF a1] assms(5,6) by auto
  have n1: "?b1 ! i ! j = mul_255_byte L (m1 ! i ! j)"
    using boolean_index_fits_lengths [OF assms(3)] assms(5,6) by auto
  have n2: "?b2 ! i ! j = mul_255_byte L (m2 ! i ! j)"
    using boolean_index_fits_lengths [OF assms(4)] assms(5,6) by auto
  have run: "draw_masks L image_cv k [(m1 # r1, s1, l1), (m2 # r2, s2, l2)] = Inr (image2, Suc (Suc k))"
    using assms(1,2) a1 a2 by simp
  have px: "image2 ! i ! j =
                (let p = image_cv ! i ! j;
                     p1 = (if 128 < mul_255_byte L (m1 ! i ! j) then blend_pixel p (randint L k) else p)
                 in if 128 < mul_255_byte L (m2 ! i ! j)
                    then blend_pixel p1 (randint L (Suc k)) else p1)"
    using masked_assign_nth [OF a1 assms(5,6)] masked_assign_nth [OF a2 i1 j1] n1 n2
    by (simp add: Let_def)
  from run px show "\<exists>image2.
            draw_masks L image_cv k [(m1 # r1, s1, l1), (m2 # r2, s2, l2)] = Inr (image2, Suc (Suc k))
            \<and> image2 ! i ! j =
                (let p = image_cv ! i ! j;
                     p1 = (if 128 < mul_255_byte L (m1 ! i ! j) then blend_pixel p (randint L k) else p)
                 in if 128 < mul_255_byte L (m2 ! i ! j)
                    then blend_pixel p1 (randint L (Suc k)) else p1)"
    by blast
qed

subsection \<open>Runs on the stub libraries\<close>

lemmas stub_defs = stub_libs_def cat_def faint_def colours_def stub_predictions_def
  stub_save_def stub_open_def stub_alternative_name_def cat_upload_def bare_upload_def
  get_form_def empty_world_def misshapen_def

lemmas detection_defs = detection_annotate_def alloc_def post_process_object_detection_def
  Let_def cvtColor_RGB2BGR_def size_reversed_def int_box_def trunc_towards_zero_def
  cv2_rectangle_def cv2_putText_def FONT_HERSHEY_SIMPLEX_def

lemmas segmentation_defs = segmentation_annotate_def cvtColor_RGB2BGR_def masked_assign_def
  boolean_index_fits_def blend_pixel_def blend_channel_eq

text \<open>
  Claim C1 on the stubs: of a detection scoring 0.95 and one scoring 0.3, only the
  first gets its rectangle.
\<close>

theorem detection_draws_boxes_witness:
  "detection_annotate stub_libs [[(1, 1, 1)]] [cat, faint]
     = Inr ([\<lparr>pixels = [[(1, 1, 1)]], overlay = []\<rparr>,
             \<lparr>pixels = [[(1, 1, 1)]],
              overlay = [Rectangle (10, 10) (50, 50) (0, 255, 0) 2,
                         PutText ''cat 0.95'' (10, 0) 0 0.5 (0, 255, 0) 2]\<rparr>], 0, 1)
   \<and> rectangles [Rectangle (10, 10) (50, 50) (0, 255, 0) 2,
                  PutText ''cat 0.95'' (10, 0) 0 0.5 (0, 255, 0) 2]
       = map (\<lambda>d. int_box (scale_box stub_libs (size_reversed [[(1, 1, 1)]]) (box d)))
           (filter (\<lambda>d. 0.9 \<le> score d) [cat, faint])
   \<and> score cat = 0.95 \<and> score faint = 0.3"
proof -
  have run: "detection_annotate stub_libs [[(1, 1, 1)]] [cat, faint]
     = Inr ([\<lparr>pixels = [[(1, 1, 1)]], overlay = []\<rparr>,
             \<lparr>pixels = [[(1, 1, 1)]],
              overlay = [Rectangle (10, 10) (50, 50) (0, 255, 0) 2,
                         PutText ''cat 0.95'' (10, 0) 0 0.5 (0, 255, 0) 2]\<rparr>], 0, 1)"
    by (simp add: detection_defs stub_defs)
  from detection_draws_boxes_of_kept_scores [OF run] run show ?thesis
    by (simp add: cat_def faint_def)
qed

text \<open>Claim C8 on the stubs.\<close>

theorem detection_leaves_decoded_array_witness:
  "detection_annotate stub_libs [[(1, 2, 3)]] [cat, faint]
     = Inr ([\<lparr>pixels = [[(1, 2, 3)]], overlay = []\<rparr>,
             \<lparr>pixels = [[(3, 2, 1)]],
              overlay = [Rectangle (10, 10) (50, 50) (0, 255, 0) 2,
                         PutText ''cat 0.95'' (10, 0) 0 0.5 (0, 255, 0) 2]\<rparr>], 0, 1)
   \<and> [\<lparr>pixels = [[(1, 2, 3)]], overlay = []\<rparr>,
       \<lparr>pixels = [[(3, 2, 1)]],
        overlay = [Rectangle (10, 10) (50, 50) (0, 255, 0) 2,
                   PutText ''cat 0.95'' (10, 0) 0 0.5 (0, 255, 0) 2]\<rparr>] ! 0
       = \<lparr>pixels = [[(1, 2, 3)]], overlay = []\<rparr>"
proof -
  have run: "detection_annotate stub_libs [[(1, 2, 3)]] [cat, faint]
     = Inr ([\<lparr>pixels = [[(1, 2, 3)]], overlay = []\<rparr>,
             \<lparr>pixels = [[(3, 2, 1)]],
              overlay = [Rectangle (10, 10) (50, 50) (0, 255, 0) 2,
                         PutText ''cat 0.95'' (10, 0) 0 0.5 (0, 255, 0) 2]\<rparr>], 0, 1)"
    by (simp add: detection_defs stub_defs)
  from detection_leaves_decoded_array [OF run] run show ?thesis by simp
qed

text \<open>
  Claim C3 on the stubs: a detection scoring 0.3, and instances scoring 0.5 and 0.3.
\<close>

theorem unchanged_without_qualifying_results_witness:
  "score faint < 0.9
   \<and> detection_annotate stub_libs [[(1, 2, 3)]] [faint]
       = Inr ([\<lparr>pixels = [[(1, 2, 3)]], overlay = []\<rparr>,
               \<lparr>pixels = [[(3, 2, 1)]], overlay = []\<rparr>], 0, 1)
   \<and> scores \<lparr>scores = [0.5, 0.3], labels = [1, 17], boxes = [],
              masks = [[[[1::real]]], [[[1]]]]\<rparr> = [0.5, 0.3]
   \<and> (0.5::real) \<le> 0.5 \<and> (0.3::real) \<le> 0.5
   \<and> segmentation_annotate stub_libs [[(1, 2, 3)]]
         \<lparr>scores = [0.5, 0.3], labels = [1, 17], boxes = [], masks = [[[[1]]], [[[1]]]]\<rparr>
       = Inr [[(3, 2, 1)]]"
proof -
  have a: "\<forall>d \<in> set [faint]. score d < 0.9" by (simp add: faint_def)
  have b: "\<forall>s \<in> set (scores \<lparr>scores = [0.5, 0.3], labels = [1, 17], boxes = [],
                            masks = [[[[1::real]]], [[[1]]]]\<rparr>). s \<le> 0.5" by simp
  from unchanged_without_qualifying_results
         [of "[faint]" stub_libs "[[(1, 2, 3)]]"
             "\<lparr>scores = [0.5, 0.3], labels = [1, 17], boxes = [], masks = [[[[1]]], [[[1]]]]\<rparr>"]
       a b
  show ?thesis by (simp add: cvtColor_RGB2BGR_def faint_def)
qed

text \<open>
  Claim C4 on the stubs: a mask that is on for the first of two pixels only.
\<close>

theorem kept_instance_blends_witness:
  "(0.5::real) < 0.8
   \<and> masked_assign [[(30, 20, 10), (60, 50, 40)]]
        (map (map (mul_255_byte stub_libs)) [[1, 0]]) (randint stub_libs 0)
       = Inr [[(115, 110, 105), (60, 50, 40)]]
   \<and> draw_masks stub_libs [[(30, 20, 10), (60, 50, 40)]] 0 [([[[1, 0]]], 0.8, 17)]
       = Inr ([[(115, 110, 105), (60, 50, 40)]], 1)
   \<and> mul_255_byte stub_libs 1 = 255 \<and> mul_255_byte stub_libs 0 = 0
   \<and> blend_pixel (30, 20, 10) (randint stub_libs 0) = (115, 110, 105)"
proof -
  have s: "(0.5::real) < 0.8" by simp
  have m: "masked_assign [[(30, 20, 10), (60, 50, 40)]]
        (map (map (mul_255_byte stub_libs)) [[1, 0]]) (randint stub_libs 0)
       = Inr [[(115, 110, 105), (60, 50, 40)]]"
    by (simp add: segmentation_defs stub_defs)
  have i: "0 < length [[(30, 20, 10), (60, 50, 40)] :: pixel list]" by simp
  have j: "0 < length ([[(30, 20, 10), (60, 50, 40)] :: pixel list] ! 0)" by simp
  from kept_instance_blends_where_mask_above_128 [OF s m i j, of "[]" 17 "[]"]
  show ?thesis using m by (simp add: segmentation_defs stub_defs)
qed

text \<open>
  Claim C10 on a pixel (31, 20, 11) blended with (200, 200, 200): 115.5 and 105.5 are
  stored as 115 and 105.
\<close>

theorem masked_pixel_channel_witness:
  "masked_assign [[(31, 20, 11), (60, 50, 40)]] [[255, 0]] (200, 200, 200)
     = Inr [[(115, 110, 105), (60, 50, 40)]]
   \<and> (128::u8) < [[255, 0]] ! 0 ! 0
   \<and> int (unat (115::u8)) = \<lfloor>real (unat (31::u8)) * 0.5 + real (unat (200::u8)) * 0.5\<rfloor>
   \<and> unat (115::u8) = (unat (31::u8) + unat (200::u8)) div 2
   \<and> int (unat (105::u8)) = \<lfloor>real (unat (11::u8)) * 0.5 + real (unat (200::u8)) * 0.5\<rfloor>
   \<and> real (unat (31::u8)) * 0.5 + real (unat (200::u8)) * 0.5 \<le> 255"
proof -
  have m: "masked_assign [[(31, 20, 11), (60, 50, 40)]] [[255, 0]] (200, 200, 200)
     = Inr [[(115, 110, 105), (60, 50, 40)]]"
    by (simp add: masked_assign_def boolean_index_fits_def blend_pixel_def blend_channel_eq)
  have i: "0 < length [[(31, 20, 11), (60, 50, 40)] :: pixel list]" by simp
  have j: "0 < length ([[(31, 20, 11), (60, 50, 40)] :: pixel list] ! 0)" by simp
  have on: "(128::u8) < [[255, 0]] ! 0 ! 0" by simp
  have p: "[[(31, 20, 11), (60, 50, 40)] :: pixel list] ! 0 ! 0 = (31, 20, 11)" by simp
  have c: "((200, 200, 200) :: pixel) = (200, 200, 200)" by simp
  from masked_pixel_channel_floor_no_overflow [OF m i j on p c] m on
  show ?thesis by simp
qed

text \<open>
  Claim C2 on the stubs: of an instance scoring exactly 0.5 and one scoring 0.8, only
  the second is blended, with the first colour drawn.
\<close>

theorem masks_blended_iff_score_witness:
  "draw_masks stub_libs [[(0, 0, 0)]] 0 [([[[1]]], 0.5, 1), ([[[1]]], 0.8, 17)]
     = blend_every stub_libs [[(0, 0, 0)]] 0 [([[[1]]], 0.8, 17)]
   \<and> blend_every stub_libs [[(0, 0, 0)]] 0 [([[[1]]], 0.8, 17)] = Inr ([[(100, 100, 100)]], 1)"
  using masks_blended_iff_score_above_half
          [of stub_libs "[[(0, 0, 0)]]" 0 "[([[[1]]], 0.5, 1), ([[[1]]], 0.8, 17)]"]
  by (simp add: segmentation_defs stub_defs)

text \<open>
  Claim C5 as stated fails: on a black pixel covered by two kept instances, the earlier
  one coloured (200, 200, 200) and the later one black, the result is (50, 50, 50).  Had
  the later instance overwritten what the earlier one blended, the pixel would be the
  later instance's own blend of the input, black, which is what the loop gives when the
  later instance is drawn alone with that colour.
\<close>

theorem later_blend_keeps_earlier_colour:
  "draw_masks stub_libs [[(0, 0, 0)]] 0 [([[[1]]], 0.8, 17), ([[[1]]], 0.7, 1)]
     = Inr ([[(50, 50, 50)]], 2)
   \<and> draw_masks stub_libs [[(0, 0, 0)]] 1 [([[[1]]], 0.7, 1)] = Inr ([[(0, 0, 0)]], 2)
   \<and> randint stub_libs 0 = (200, 200, 200) \<and> randint stub_libs 1 = (0, 0, 0)
   \<and> blend_pixel (0, 0, 0) (randint stub_libs 1) = (0, 0, 0)"
  by (simp add: segmentation_defs stub_defs)

text \<open>Claim C5 as amended, on the same two instances.\<close>

theorem later_instance_blended_over_earlier_witness:
  "(0.5::real) < 0.8 \<and> (0.5::real) < 0.7
   \<and> boolean_index_fits (map (map (mul_255_byte stub_libs)) [[1]]) [[(0, 0, 0)]]
   \<and> (\<exists>image2.
         draw_masks stub_libs [[(0, 0, 0)]] 0 [([[[1]]], 0.8, 17), ([[[1]]], 0.7, 1)]
           = Inr (image2, Suc (Suc 0))
         \<and> image2 ! 0 ! 0 = blend_pixel (blend_pixel (0, 0, 0) (200, 200, 200)) (0, 0, 0))"
proof -
  have s1: "(0.5::real) < 0.8" and s2: "(0.5::real) < 0.7" by simp_all
  have fit: "boolean_index_fits (map (map (mul_255_byte stub_libs)) [[1]]) [[(0, 0, 0)]]"
    by (simp add: boolean_index_fits_def)
  have i: "0 < length [[(0, 0, 0)] :: pixel list]" by simp
  have j: "0 < length ([[(0, 0, 0)] :: pixel list] ! 0)" by simp
  from later_instance_blended_over_earlier [OF s1 s2 fit fit i j, of 0 "[]" "[]" "[]" 17 "[]" 1]
  show ?thesis using s1 s2 fit by (simp add: stub_defs Let_def)
qed

lemmas handler_defs = detection_def segmentation_def posted_image_def Let_def

lemma cat_upload_posted:
  "posted_image (cat_upload bytes)"
  "FILES (cat_upload bytes) ''image'' = Some \<lparr>name = ''cat.jpg'', content = bytes\<rparr>"
  by (simp_all add: posted_image_def cat_upload_def)

lemma first_cat_run:
  "detection stub_libs (cat_upload [1]) empty_world
     = (Inr (Render ''detection_result.html''
               [(''original'', ''cat.jpg''), (''processed'', ''processed_cat.jpg'')]),
        \<lparr>media_root =
           [''cat.jpg'' \<mapsto> Upload [1],
            ''processed_cat.jpg'' \<mapsto>
              Picture \<lparr>pixels = [[(1, 1, 1)]],
                       overlay = [Rectangle (10, 10) (50, 50) (0, 255, 0) 2,
                                  PutText ''cat 0.95'' (10, 0) 0 0.5 (0, 255, 0) 2]\<rparr>],
         inferences = 1\<rparr>)"
  by (simp add: handler_defs detection_defs stub_defs)



lemma stub_fs_save:
  "fs_save stub_libs = stub_save"
  "fs_save (stub_libs\<lparr>detr := d, maskrcnn := m\<rparr>) = stub_save"
  "fs_save (stub_libs\<lparr>id2label := t, maskrcnn := m\<rparr>) = stub_save"
  by (simp_all add: stub_libs_def)

lemma cat_saved:
  "fs_save L = stub_save \<Longrightarrow>
   fs_save L (media_root empty_world)
      (name \<lparr>name = ''cat.jpg'', content = bytes\<rparr>) (content \<lparr>name = ''cat.jpg'', content = bytes\<rparr>)
     = (''cat.jpg'', [''cat.jpg'' \<mapsto> Upload bytes])"
  by (simp add: stub_save_def empty_world_def Let_def)


text \<open>
  An upload stored under a name with no extension: both handlers end with OpenCV's
  exception at \<^verbatim>\<open>cv2.imwrite\<close>, after the upload was saved and the network run, and
  write no output.
\<close>

lemma upload_without_extension_raises:
  "detection stub_libs bare_upload empty_world
     = (Inl (External ''cv2.error''),
        \<lparr>media_root = [''cat'' \<mapsto> Upload [1]], inferences = 1\<rparr>)"
  "segmentation stub_libs bare_upload empty_world
     = (Inl (External ''cv2.error''),
        \<lparr>media_root = [''cat'' \<mapsto> Upload [1]], inferences = 1\<rparr>)"
  by (simp_all add: handler_defs detection_defs segmentation_defs stub_defs)


text \<open>
  Claim C7 as stated fails: a segmenter output with two masks for one score, whose first
  mask does not have the shape of the image, raises nothing.  \<^verbatim>\<open>zip\<close> drops the second
  mask, the first instance scores 0.3 and is skipped before its mask is looked at, and
  the handler writes its output and returns the result page.
\<close>

theorem malformed_output_accepted:
  "maskrcnn (stub_libs\<lparr>maskrcnn := \<lambda>image_np. Inr misshapen\<rparr>) [[(1, 1, 1)]] = Inr misshapen
   \<and> length (masks misshapen) = 2 \<and> length (scores misshapen) = 1
   \<and> \<not> boolean_index_fits
          (map (map (mul_255_byte stub_libs)) [[1, 1, 1]]) (cvtColor_RGB2BGR [[(1, 1, 1)]])
   \<and> segmentation (stub_libs\<lparr>maskrcnn := \<lambda>image_np. Inr misshapen\<rparr>) (cat_upload [1]) empty_world
       = (Inr (Render ''segmentation_result.html''
                 [(''original'', ''cat.jpg''), (''processed'', ''processed_cat.jpg'')]),
          \<lparr>media_root =
             [''cat.jpg'' \<mapsto> Upload [1],
              ''processed_cat.jpg'' \<mapsto> Picture \<lparr>pixels = [[(1, 1, 1)]], overlay = []\<rparr>],
           inferences = 1\<rparr>)"
  by (simp add: handler_defs segmentation_defs stub_defs Let_def)

text \<open>
  Claim C7 as amended, on the stubs: an empty upload that does not decode, networks that
  raise, a label missing from \<^verbatim>\<open>id2label\<close>, and a kept instance whose mask is too wide.
\<close>

theorem failures_leave_handler_unretried_witness:
  "detection stub_libs (cat_upload []) empty_world
     = (Inl (External ''UnidentifiedImageError''),
        \<lparr>media_root = [''cat.jpg'' \<mapsto> Upload []], inferences = 0\<rparr>)
   \<and> segmentation stub_libs (cat_upload []) empty_world
     = (Inl (External ''UnidentifiedImageError''),
        \<lparr>media_root = [''cat.jpg'' \<mapsto> Upload []], inferences = 0\<rparr>)
   \<and> detection (stub_libs\<lparr>detr := \<lambda>image_rgb. Inl (External ''RuntimeError''),
                           maskrcnn := \<lambda>image_np. Inl (External ''RuntimeError'')\<rparr>)
        (cat_upload [1]) empty_world
     = (Inl (External ''RuntimeError''),
        \<lparr>media_root = [''cat.jpg'' \<mapsto> Upload [1]], inferences = Suc 0\<rparr>)
   \<and> segmentation (stub_libs\<lparr>detr := \<lambda>image_rgb. Inl (External ''RuntimeError''),
                              maskrcnn := \<lambda>image_np. Inl (External ''RuntimeError'')\<rparr>)
        (cat_upload [1]) empty_world
     = (Inl (External ''RuntimeError''),
        \<lparr>media_root = [''cat.jpg'' \<mapsto> Upload [1]], inferences = Suc 0\<rparr>)
   \<and> detection (stub_libs\<lparr>id2label := Map.empty,
                           maskrcnn := \<lambda>image_np. Inr \<lparr>scores = [0.8], labels = [17], boxes = [],
                                                      masks = [[[[1, 1, 1]]]]\<rparr>\<rparr>)
        (cat_upload [1]) empty_world
     = (Inl KeyError, \<lparr>media_root = [''cat.jpg'' \<mapsto> Upload [1]], inferences = Suc 0\<rparr>)
   \<and> segmentation (stub_libs\<lparr>id2label := Map.empty,
                              maskrcnn := \<lambda>image_np. Inr \<lparr>scores = [0.8], labels = [17], boxes = [],
                                                         masks = [[[[1, 1, 1]]]]\<rparr>\<rparr>)
        (cat_upload [1]) empty_world
     = (Inl IndexError, \<lparr>media_root = [''cat.jpg'' \<mapsto> Upload [1]], inferences = Suc 0\<rparr>)"
proof -
  let ?down = "stub_libs\<lparr>detr := \<lambda>image_rgb. Inl (External ''RuntimeError''),
                         maskrcnn := \<lambda>image_np. Inl (External ''RuntimeError'')\<rparr>"
  let ?bad = "stub_libs\<lparr>id2label := Map.empty,
                        maskrcnn := \<lambda>image_np. Inr \<lparr>scores = [0.8], labels = [17], boxes = [],
                                                   masks = [[[[1, 1, 1]]]]\<rparr>\<rparr>"
  note a = failures_leave_handler_unretried
             [where L = stub_libs and request = "cat_upload []" and w = empty_world
                and e = "External ''UnidentifiedImageError''",
              OF cat_upload_posted(1) cat_upload_posted(2) cat_saved [OF stub_fs_save(1)]]
  note b = failures_leave_handler_unretried
             [where L = ?down and request = "cat_upload [1]" and w = empty_world
                and e = "External ''RuntimeError''" and image_np = "[[(1, 1, 1)]]",
              OF cat_upload_posted(1) cat_upload_posted(2) cat_saved [OF stub_fs_save(2)]]
  note c = failures_leave_handler_unretried
             [where L = ?bad and request = "cat_upload [1]" and w = empty_world
                and e = KeyError and image_np = "[[(1, 1, 1)]]" and outputs = "[cat, faint]",
              OF cat_upload_posted(1) cat_upload_posted(2) cat_saved [OF stub_fs_save(3)]]
  note d = failures_leave_handler_unretried
             [where L = ?bad and request = "cat_upload [1]" and w = empty_world
                and e = IndexError and image_np = "[[(1, 1, 1)]]"
                and prediction = "\<lparr>scores = [0.8], labels = [17], boxes = [],
                                   masks = [[[[1, 1, 1]]]]\<rparr>",
              OF cat_upload_posted(1) cat_upload_posted(2) cat_saved [OF stub_fs_save(3)]]
  have a': "detection stub_libs (cat_upload []) empty_world
     = (Inl (External ''UnidentifiedImageError''),
        \<lparr>media_root = [''cat.jpg'' \<mapsto> Upload []], inferences = 0\<rparr>)
   \<and> segmentation stub_libs (cat_upload []) empty_world
     = (Inl (External ''UnidentifiedImageError''),
        \<lparr>media_root = [''cat.jpg'' \<mapsto> Upload []], inferences = 0\<rparr>)"
    using a by (simp add: stub_libs_def stub_open_def empty_world_def)
  have b': "detection ?down (cat_upload [1]) empty_world
     = (Inl (External ''RuntimeError''),
        \<lparr>media_root = [''cat.jpg'' \<mapsto> Upload [1]], inferences = Suc 0\<rparr>)
   \<and> segmentation ?down (cat_upload [1]) empty_world
     = (Inl (External ''RuntimeError''),
        \<lparr>media_root = [''cat.jpg'' \<mapsto> Upload [1]], inferences = Suc 0\<rparr>)"
    using b by (simp add: stub_libs_def stub_open_def empty_world_def)
  have c': "detection ?bad (cat_upload [1]) empty_world
     = (Inl KeyError, \<lparr>media_root = [''cat.jpg'' \<mapsto> Upload [1]], inferences = Suc 0\<rparr>)"
    using c by (simp add: detection_defs stub_defs)
  have d': "segmentation ?bad (cat_upload [1]) empty_world
     = (Inl IndexError, \<lparr>media_root = [''cat.jpg'' \<mapsto> Upload [1]], inferences = Suc 0\<rparr>)"
    using d by (simp add: segmentation_defs stub_defs)
  from a' b' c' d' show ?thesis by blast
qed

text \<open>Claim C9 on a GET request, and on a POST that does change the directory.\<close>

theorem no_upload_no_effect_witness:
  "\<not> (http_method get_form = ''POST'' \<and> FILES get_form ''image'' \<noteq> None)
   \<and> detection stub_libs get_form empty_world = (Inr (Render ''detection.html'' []), empty_world)
   \<and> segmentation stub_libs get_form empty_world = (Inr (Render ''segmentation.html'' []), empty_world)
   \<and> media_root (snd (detection stub_libs (cat_upload [1]) empty_world)) \<noteq> media_root empty_world
   \<and> http_method (cat_upload [1]) = ''POST'' \<and> FILES (cat_upload [1]) ''image'' \<noteq> None"
proof -
  have g: "\<not> (http_method get_form = ''POST'' \<and> FILES get_form ''image'' \<noteq> None)"
    by (simp add: get_form_def)
  have ch: "media_root (snd (detection stub_libs (cat_upload [1]) empty_world)) \<noteq> media_root empty_world"
    unfolding first_cat_run snd_conv by (simp add: empty_world_def)
  from no_upload_no_effect [of get_form stub_libs empty_world, THEN conjunct1, rule_format, OF g]
       no_upload_no_effect [of "cat_upload [1]" stub_libs empty_world, THEN conjunct2] g ch
  show ?thesis by blast
qed

end
